theory Spec2Isabelle
  imports
    Complex_Main
    "HOL-Library.Char_ord"
    "HOL-Library.List_Lexorder"
    "HOL-Library.Product_Lexorder"
    "HOL-Library.AList"
    "HOL-Library.Multiset"
begin

section \<open>Feature-specific sentiment dashboard (app.py)\<close>

text \<open>
  The script \<^verbatim>\<open>app.py\<close> loads a reviews table, hands it to the external analyser
  \<^verbatim>\<open>analyze_sentiment\<close>, reshapes the returned table with pandas and renders a histogram,
  a table and a bar chart through Streamlit. The embedding below has three layers:
  \<^item> the float64 and int64 cells a pandas column holds, with the arithmetic the script
    applies to them;
  \<^item> the pandas operations the script calls (\<^verbatim>\<open>groupby\<close>, \<^verbatim>\<open>value_counts\<close>,
    \<^verbatim>\<open>unstack\<close>, \<^verbatim>\<open>get\<close>, column read and assignment, \<^verbatim>\<open>sort_values\<close>), on a frame
    that is a row index and a list of named columns;
  \<^item> the script itself, as a function from what the outside world does in one run (the
    upload, the buttons, the file system, the analyser) to the list of widgets emitted and
    the exception left uncaught, if any.
\<close>

subsection \<open>Cells: float64 and int64\<close>

text \<open>
  A float64 is a finite value, an infinity or NaN. Finite values are exact rationals:
  rounding to 53 bits and signed zeros are outside the model. Counts are unbounded integers:
  an int64 count cannot overflow on a table that fits in memory.
\<close>

datatype fval = Fin rat | PInf | NInf | NaN

fun is_nan :: "fval \<Rightarrow> bool" where
  "is_nan NaN = True"
| "is_nan _ = False"

fun fneg :: "fval \<Rightarrow> fval" where
  "fneg (Fin a) = Fin (- a)"
| "fneg PInf = NInf"
| "fneg NInf = PInf"
| "fneg NaN = NaN"

fun fadd :: "fval \<Rightarrow> fval \<Rightarrow> fval" where
  "fadd NaN _ = NaN"
| "fadd _ NaN = NaN"
| "fadd (Fin a) (Fin b) = Fin (a + b)"
| "fadd PInf NInf = NaN"
| "fadd NInf PInf = NaN"
| "fadd PInf _ = PInf"
| "fadd _ PInf = PInf"
| "fadd NInf _ = NInf"
| "fadd _ NInf = NInf"

definition fsub :: "fval \<Rightarrow> fval \<Rightarrow> fval" where
  "fsub x y = fadd x (fneg y)"

text \<open>
  True division of float64 as numpy does it under pandas: nothing is raised, a zero
  divisor gives an infinity, and \<open>0 / 0\<close> gives NaN.
\<close>

fun fdiv :: "fval \<Rightarrow> fval \<Rightarrow> fval" where
  "fdiv NaN _ = NaN"
| "fdiv _ NaN = NaN"
| "fdiv (Fin a) (Fin b) =
     (if b \<noteq> 0 then Fin (a / b)
      else if a = 0 then NaN
      else if 0 < a then PInf else NInf)"
| "fdiv (Fin a) _ = Fin 0"
| "fdiv PInf (Fin b) = (if 0 \<le> b then PInf else NInf)"
| "fdiv NInf (Fin b) = (if 0 \<le> b then NInf else PInf)"
| "fdiv _ _ = NaN"

text \<open>The comparison \<^verbatim>\<open>x <= y\<close> of float64: false as soon as one side is NaN.\<close>

fun fle :: "fval \<Rightarrow> fval \<Rightarrow> bool" where
  "fle NaN _ = False"
| "fle _ NaN = False"
| "fle NInf _ = True"
| "fle _ PInf = True"
| "fle (Fin a) (Fin b) = (a \<le> b)"
| "fle _ _ = False"

datatype cell = IntC int | FloatC fval

fun to_float :: "cell \<Rightarrow> fval" where
  "to_float (IntC i) = Fin (of_int i)"
| "to_float (FloatC x) = x"

fun cell_add :: "cell \<Rightarrow> cell \<Rightarrow> cell" where
  "cell_add (IntC a) (IntC b) = IntC (a + b)"
| "cell_add x y = FloatC (fadd (to_float x) (to_float y))"

fun cell_sub :: "cell \<Rightarrow> cell \<Rightarrow> cell" where
  "cell_sub (IntC a) (IntC b) = IntC (a - b)"
| "cell_sub x y = FloatC (fsub (to_float x) (to_float y))"

definition cell_truediv :: "cell \<Rightarrow> cell \<Rightarrow> cell" where
  "cell_truediv x y = FloatC (fdiv (to_float x) (to_float y))"

subsection \<open>Frames and the pandas operations of the script\<close>

datatype fault = KeyError string | FileNotFoundError | OtherError string

text \<open>
  A frame has a row index (here the bucket names) and named columns, each as long as the
  index. An operand of an arithmetic expression is a column or a scalar:
  \<^verbatim>\<open>DataFrame.get(name, 0)\<close> returns the column when the frame has it and the scalar
  default otherwise.
\<close>

record frame =
  index :: "string list"
  columns :: "(string \<times> cell list) list"

datatype operand = Ser "cell list" | Scal cell

definition get_col :: "frame \<Rightarrow> string \<Rightarrow> cell \<Rightarrow> operand" where
  "get_col f name dflt =
     (case map_of (columns f) name of Some c \<Rightarrow> Ser c | None \<Rightarrow> Scal dflt)"

definition getitem :: "frame \<Rightarrow> string \<Rightarrow> fault + cell list" where
  "getitem f name =
     (case map_of (columns f) name of Some c \<Rightarrow> Inr c | None \<Rightarrow> Inl (KeyError name))"

text \<open>
  \<^verbatim>\<open>frame[name] = value\<close>: a scalar is broadcast over the index; a column of that name is
  replaced where it stands, a new name is appended.
\<close>

definition setitem :: "string \<Rightarrow> operand \<Rightarrow> frame \<Rightarrow> frame" where
  "setitem name v f =
     f\<lparr>columns :=
         AList.update name
           (case v of Ser c \<Rightarrow> c | Scal x \<Rightarrow> replicate (length (index f)) x)
           (columns f)\<rparr>"

fun add_operand :: "operand \<Rightarrow> operand \<Rightarrow> operand" where
  "add_operand (Ser a) (Ser b) = Ser (map2 cell_add a b)"
| "add_operand (Ser a) (Scal y) = Ser (map (\<lambda>x. cell_add x y) a)"
| "add_operand (Scal x) (Ser b) = Ser (map (cell_add x) b)"
| "add_operand (Scal x) (Scal y) = Scal (cell_add x y)"

text \<open>Operand divided by a column, and column minus column: both elementwise.\<close>

fun truediv_series :: "operand \<Rightarrow> cell list \<Rightarrow> cell list" where
  "truediv_series (Ser a) t = map2 cell_truediv a t"
| "truediv_series (Scal x) t = map (cell_truediv x) t"

definition sub_series :: "cell list \<Rightarrow> cell list \<Rightarrow> cell list" where
  "sub_series a b = map2 cell_sub a b"

text \<open>
  \<^verbatim>\<open>sort_values(by=key, ascending=True)\<close> with the default \<^verbatim>\<open>na_position='last'\<close>: the
  positions of the non-NaN keys are sorted by key, the positions of the NaN keys follow in
  their original order, and every column and the index are read in that order. The default
  sort kind of pandas promises no order among equal keys; the model sorts the non-NaN
  positions with a stable sort, so equal keys keep their order. \<open>fkey\<close> embeds the
  non-NaN float64 values in a linear order that agrees with \<open>fle\<close>.
\<close>

fun fkey :: "fval \<Rightarrow> nat \<times> rat" where
  "fkey NInf = (0, 0)"
| "fkey (Fin a) = (1, a)"
| "fkey PInf = (2, 0)"
| "fkey NaN = (3, 0)"

definition nargsort :: "fval list \<Rightarrow> nat list" where
  "nargsort ks =
     (let idx = [0..<length ks];
          non_nan_idx = filter (\<lambda>i. \<not> is_nan (ks ! i)) idx;
          nan_idx = filter (\<lambda>i. is_nan (ks ! i)) idx
      in sort_key (\<lambda>i. fkey (ks ! i)) non_nan_idx @ nan_idx)"

definition take_rows :: "nat list \<Rightarrow> 'a list \<Rightarrow> 'a list" where
  "take_rows order c = map (\<lambda>i. c ! i) order"

definition sort_values :: "string \<Rightarrow> frame \<Rightarrow> fault + frame" where
  "sort_values key f =
     (case map_of (columns f) key of
        None \<Rightarrow> Inl (KeyError key)
      | Some c \<Rightarrow>
          (let order = nargsort (map to_float c)
           in Inr \<lparr>index = take_rows order (index f),
                   columns = map (\<lambda>(name, col). (name, take_rows order col)) (columns f)\<rparr>))"

subsection \<open>The result table and its pivot\<close>

text \<open>
  A row of the table \<^verbatim>\<open>analyze_sentiment\<close> returns. Buckets and labels are strings; a
  missing value (None, NaN) in either column, which \<^verbatim>\<open>groupby\<close> and \<^verbatim>\<open>value_counts\<close>
  would drop, is outside the model.
\<close>

record result_row =
  bucket :: string
  label :: string
  confidence :: fval

text \<open>\<^verbatim>\<open>Series.value_counts()\<close>: the distinct values with their counts, most frequent first.\<close>

definition value_counts :: "string list \<Rightarrow> (string \<times> int) list" where
  "value_counts xs =
     sort_key (\<lambda>(v, c). - c) (map (\<lambda>v. (v, int (count_list xs v))) (remdups xs))"

text \<open>
  \<^verbatim>\<open>result_df.groupby('bucket')['label'].value_counts()\<close>: a series of counts indexed by
  (bucket, label), the groups in ascending order of the bucket.
\<close>

definition groupby_value_counts :: "result_row list \<Rightarrow> ((string \<times> string) \<times> int) list" where
  "groupby_value_counts df =
     concat (map (\<lambda>b. map (\<lambda>(l, c). ((b, l), c))
                         (value_counts (map label (filter (\<lambda>r. bucket r = b) df))))
                 (sort (remdups (map bucket df))))"

text \<open>
  \<^verbatim>\<open>unstack(fill_value=v)\<close> of such a series: the second index level becomes the columns,
  rows and columns in ascending order, and a pair the series does not have gets \<open>v\<close>.
\<close>

definition unstack :: "int \<Rightarrow> ((string \<times> string) \<times> int) list \<Rightarrow> frame" where
  "unstack fill_value s =
     (let rows = sort (remdups (map (fst \<circ> fst) s));
          cols = sort (remdups (map (snd \<circ> fst) s))
      in \<lparr>index = rows,
          columns = map (\<lambda>l. (l, map (\<lambda>b. case map_of s (b, l) of
                                              Some c \<Rightarrow> IntC c
                                            | None \<Rightarrow> IntC fill_value) rows)) cols\<rparr>)"

text \<open>Line 80: the pivot that \<^verbatim>\<open>st.dataframe\<close> shows.\<close>

definition sentiment_summary_pivot :: "result_row list \<Rightarrow> frame" where
  "sentiment_summary_pivot result_df = unstack 0 (groupby_value_counts result_df)"

text \<open>
  Lines 86 to 90: the four assignments and the sort, in the order of the script. A column
  read \<^verbatim>\<open>sentiment_summary['total']\<close> raises KeyError when the column is missing.
\<close>

definition sentiment_summary :: "result_row list \<Rightarrow> fault + frame" where
  "sentiment_summary result_df =
     (let s0 = sentiment_summary_pivot result_df;
          s1 = setitem ''total''
                 (add_operand (get_col s0 ''POSITIVE'' (IntC 0)) (get_col s0 ''NEGATIVE'' (IntC 0))) s0
      in case getitem s1 ''total'' of Inl x \<Rightarrow> Inl x | Inr t1 \<Rightarrow>
         (let s2 = setitem ''positive_rate''
                     (Ser (truediv_series (get_col s1 ''POSITIVE'' (IntC 0)) t1)) s1
          in case getitem s2 ''total'' of Inl x \<Rightarrow> Inl x | Inr t2 \<Rightarrow>
             (let s3 = setitem ''negative_rate''
                         (Ser (truediv_series (get_col s2 ''NEGATIVE'' (IntC 0)) t2)) s2
              in case getitem s3 ''positive_rate'' of Inl x \<Rightarrow> Inl x | Inr pr \<Rightarrow>
                 (case getitem s3 ''negative_rate'' of Inl x \<Rightarrow> Inl x | Inr nr \<Rightarrow>
                    sort_values ''sentiment_score''
                      (setitem ''sentiment_score'' (Ser (sub_series pr nr)) s3)))))"

text \<open>\<^verbatim>\<open>frame.at[b, name]\<close>: the cell of row \<open>b\<close> in column \<open>name\<close>, if both exist.\<close>

definition cell_at :: "frame \<Rightarrow> string \<Rightarrow> string \<Rightarrow> cell option" where
  "cell_at f b name =
     (case map_of (columns f) name of
        None \<Rightarrow> None
      | Some c \<Rightarrow> map_of (zip (index f) c) b)"

text \<open>The number of rows of the result table with bucket \<open>b\<close> and label \<open>l\<close>.\<close>

definition count_rows :: "result_row list \<Rightarrow> string \<Rightarrow> string \<Rightarrow> nat" where
  "count_rows df b l = length (filter (\<lambda>r. bucket r = b \<and> label r = l) df)"

subsection \<open>The script\<close>

text \<open>
  The reviews table: the script only takes its length and passes it on. The widgets of
  Streamlit the script emits are recorded with their arguments; a figure is recorded by what
  it is drawn from (the confidences and the number of bins; the buckets, their scores and
  the bar colours).
\<close>

record reviews =
  header :: "string list"
  records :: "string list list"

datatype figure =
    Hist "fval list" nat
  | Barh "string list" "fval list" "string list"

datatype ui =
    StPageConfig string string
  | StTitle string
  | StWrite string
  | StFileUploader string
  | StButton string
  | StError string
  | StInfo string
  | StWarning string
  | StSuccess string
  | StSubheader string
  | StSpinner string
  | StPyplot figure
  | StDataframe frame

text \<open>
  What one run of the script meets: the upload (absent, or what \<^verbatim>\<open>pd.read_csv\<close> makes of
  it), the two buttons, what \<^verbatim>\<open>pd.read_csv(DEFAULT_CSV)\<close> does, and the analyser, which
  returns a result table or None, or raises.
\<close>

record env =
  uploaded_file :: "(fault + reviews) option"
  use_default_clicked :: bool
  read_default_csv :: "fault + reviews"
  run_clicked :: bool
  analyze_sentiment :: "reviews \<Rightarrow> string \<Rightarrow> fault + result_row list option"

definition DEFAULT_CSV :: string where
  "DEFAULT_CSV = ''data/processed/noom_google_clean.csv''"

text \<open>\<^verbatim>\<open>str(n)\<close> of a length, as the f-strings of lines 34 and 38 print it.\<close>

fun str_nat :: "nat \<Rightarrow> string" where
  "str_nat n =
     (if n < 10 then [char_of (48 + n)]
      else str_nat (n div 10) @ [char_of (48 + n mod 10)])"

declare str_nat.simps [simp del]

text \<open>
  Lines 32 to 44. The result is the widgets emitted and either the uncaught exception or
  the value of \<^verbatim>\<open>df\<close> (None when nothing was loaded).
\<close>

definition load_csv :: "env \<Rightarrow> ui list \<times> (fault + reviews option)" where
  "load_csv e =
     (case uploaded_file e of
        Some rd \<Rightarrow>
          (case rd of
             Inl x \<Rightarrow> ([], Inl x)
           | Inr df \<Rightarrow>
               ([StWrite (''Loaded '' @ str_nat (length (records df)) @
                          '' reviews from uploaded CSV.'')],
                Inr (Some df)))
      | None \<Rightarrow>
          (if use_default_clicked e then
             (case read_default_csv e of
                Inr df \<Rightarrow>
                  ([StButton ''Use default processed CSV'',
                    StWrite (''Loaded '' @ str_nat (length (records df)) @
                             '' reviews from default CSV.'')],
                   Inr (Some df))
              | Inl FileNotFoundError \<Rightarrow>
                  ([StButton ''Use default processed CSV'',
                    StError (''Default CSV not found at '' @ DEFAULT_CSV @
                             ''. Please upload a file.'')],
                   Inr None)
              | Inl x \<Rightarrow> ([StButton ''Use default processed CSV''], Inl x))
           else
             ([StButton ''Use default processed CSV'',
               StInfo ''Please upload a CSV or click 'Use default processed CSV'.''],
              Inr None)))"

text \<open>Lines 49 to 61.\<close>

definition plot_confidence_histogram :: "result_row list option \<Rightarrow> ui list" where
  "plot_confidence_histogram sent_df =
     (case sent_df of
        None \<Rightarrow> [StWarning ''No sentiment data available to plot confidence histogram.'']
      | Some rows \<Rightarrow>
          (if rows = [] then
             [StWarning ''No sentiment data available to plot confidence histogram.'']
           else [StPyplot (Hist (map confidence rows) 20)]))"

text \<open>
  Lines 71 to 102: what the script does with the analyser's result. The second component
  is the exception left uncaught, if any.
\<close>

definition show_results :: "result_row list option \<Rightarrow> ui list \<times> fault option" where
  "show_results result_df =
     (case result_df of
        None \<Rightarrow> ([StWarning ''No relevant clauses were found with the current keywords.''], None)
      | Some rows \<Rightarrow>
          (if rows = [] then
             ([StWarning ''No relevant clauses were found with the current keywords.''], None)
           else
             (let shown =
                    [StSuccess ''Sentiment analysis complete!'',
                     StSubheader ''Model Confidence Distribution''] @
                    plot_confidence_histogram result_df @
                    [StSubheader ''Feature-Level Sentiment Summary'',
                     StDataframe (sentiment_summary_pivot rows),
                     StSubheader ''Feature Sentiment Scores'']
              in case sentiment_summary rows of
                   Inl x \<Rightarrow> (shown, Some x)
                 | Inr s \<Rightarrow>
                     (case getitem s ''sentiment_score'' of
                        Inl x \<Rightarrow> (shown, Some x)
                      | Inr sc \<Rightarrow>
                          (shown @
                           [StPyplot
                              (Barh (index s) (map to_float sc)
                                 (map (\<lambda>x. if fle (Fin 0) (to_float x) then ''#4CAF50''
                                            else ''#F44336'') sc))],
                           None)))))"

text \<open>Lines 66 to 70, then \<open>show_results\<close>.\<close>

definition run_analysis :: "env \<Rightarrow> reviews option \<Rightarrow> ui list \<times> fault option" where
  "run_analysis e df =
     (case df of
        None \<Rightarrow> ([], None)
      | Some d \<Rightarrow>
          (if run_clicked e then
             (case analyze_sentiment e d ''cleaned_content'' of
                Inl x \<Rightarrow>
                  ([StButton ''Run Feature Specific Analysis'',
                    StSpinner ''Running sentiment analysis... This may take a few minutes...''],
                   Some x)
              | Inr result_df \<Rightarrow>
                  (let (shown, raised) = show_results result_df
                   in ([StButton ''Run Feature Specific Analysis'',
                        StSpinner ''Running sentiment analysis... This may take a few minutes...'']
                       @ shown, raised)))
           else ([StButton ''Run Feature Specific Analysis''], None)))"

definition page_head :: "ui list" where
  "page_head =
     [StPageConfig ''Feature-Specific Sentiment Analysis'' ''wide'',
      StTitle ''Feature-Specific Sentiment Analysis Tool'',
      StWrite (CHR 0x0A # ''Upload a cleaned reviews CSV (from previous sentiment step) or use the default processed file to analyze feature-specific sentiment.'' @ [CHR 0x0A]),
      StFileUploader ''Upload your cleaned reviews CSV'']"

text \<open>The whole script: one run from top to bottom.\<close>

definition app :: "env \<Rightarrow> ui list \<times> fault option" where
  "app e =
     (case load_csv e of
        (loaded, Inl x) \<Rightarrow> (page_head @ loaded, Some x)
      | (loaded, Inr df) \<Rightarrow>
          (let (shown, raised) = run_analysis e df
           in (page_head @ loaded @ shown, raised)))"

subsection \<open>Row-wise view of the summary\<close>

text \<open>
  The definitions of this subsection are not part of the script. They describe the summary
  one bucket at a time: every column of the pivot and of the summary is a function of the
  bucket, applied along the index. The lemmas below show that the column-wise operations of
  the script compute exactly these functions.
\<close>

definition buckets_of :: "result_row list \<Rightarrow> string list" where
  "buckets_of df = sort (remdups (map bucket df))"
definition labels_of :: "result_row list \<Rightarrow> string list" where
  "labels_of df = sort (remdups (map label df))"

definition frame_of :: "string list \<Rightarrow> (string \<times> (string \<Rightarrow> cell)) list \<Rightarrow> frame" where
  "frame_of bs fs = \<lparr>index = bs, columns = map (\<lambda>(name, g). (name, map g bs)) fs\<rparr>"

definition count_cols :: "result_row list \<Rightarrow> (string \<times> (string \<Rightarrow> cell)) list" where
  "count_cols df = map (\<lambda>l. (l, \<lambda>b. IntC (int (count_rows df b l)))) (labels_of df)"

definition or_default :: "(string \<Rightarrow> cell) option \<Rightarrow> cell \<Rightarrow> string \<Rightarrow> cell" where
  "or_default g d = (case g of Some h \<Rightarrow> h | None \<Rightarrow> (\<lambda>_. d))"

definition total_of :: "result_row list \<Rightarrow> string \<Rightarrow> cell" where
  "total_of df b = IntC (int (count_rows df b ''POSITIVE'') + int (count_rows df b ''NEGATIVE''))"

definition positive_rate_of :: "result_row list \<Rightarrow> string \<Rightarrow> cell" where
  "positive_rate_of df b = cell_truediv (IntC (int (count_rows df b ''POSITIVE''))) (total_of df b)"

definition negative_rate_of :: "result_row list \<Rightarrow> string \<Rightarrow> cell" where
  "negative_rate_of df b = cell_truediv (IntC (int (count_rows df b ''NEGATIVE''))) (total_of df b)"

definition score_of :: "result_row list \<Rightarrow> string \<Rightarrow> cell" where
  "score_of df b = cell_sub (positive_rate_of df b) (negative_rate_of df b)"

definition summary_cols :: "result_row list \<Rightarrow> (string \<times> (string \<Rightarrow> cell)) list" where
  "summary_cols df =
     AList.update ''sentiment_score'' (score_of df)
       (AList.update ''negative_rate'' (negative_rate_of df)
          (AList.update ''positive_rate'' (positive_rate_of df)
             (AList.update ''total'' (total_of df) (count_cols df))))"

definition sorted_buckets :: "result_row list \<Rightarrow> string list" where
  "sorted_buckets df =
     take_rows (nargsort (map (to_float \<circ> score_of df) (buckets_of df))) (buckets_of df)"



text \<open>A widget that renders data: a chart or a table.\<close>

fun is_rendering :: "ui \<Rightarrow> bool" where
  "is_rendering (StPyplot _) = True"
| "is_rendering (StDataframe _) = True"
| "is_rendering _ = False"

section \<open>Properties\<close>

subsection \<open>The pivot, one cell at a time\<close>

lemma map_of_value_counts:
  "map_of (value_counts xs) v = (if v \<in> set xs then Some (int (count_list xs v)) else None)"
proof -
  let ?ys = "map (\<lambda>v. (v, int (count_list xs v))) (remdups xs)"
  have d1: "distinct (map fst ?ys)" by (simp add: comp_def)
  have "mset (map fst (value_counts xs)) = mset (map fst ?ys)"
    unfolding value_counts_def by (simp only: mset_map mset_sort)
  then have d2: "distinct (map fst (value_counts xs))"
    using d1 mset_eq_imp_distinct_iff by blast
  have "set (value_counts xs) = set ?ys" by (simp add: value_counts_def)
  then have "map_of (value_counts xs) = map_of ?ys"
    using d1 d2 map_of_inject_set by blast
  then show ?thesis by (simp add: map_of_map_restrict restrict_map_def)
qed

lemma map_of_tagged:
  "map_of (map (\<lambda>(l, c). ((b', l), c)) ys) (b, l) = (if b = b' then map_of ys l else None)"
  by (induction ys) auto

lemma map_of_concat_tagged:
  "map_of (concat (map (\<lambda>b'. map (\<lambda>(l, c). ((b', l), c)) (g b')) bs)) (b, l)
     = (if b \<in> set bs then map_of (g b) l else None)"
  by (induction bs) (auto simp: map_of_tagged map_add_def split: option.splits)

lemma count_list_labels:
  "count_list (map label (filter (\<lambda>r. bucket r = b) df)) l = count_rows df b l"
  by (induction df) (auto simp: count_rows_def)

lemma count_rows_pos_iff:
  "0 < count_rows df b l \<longleftrightarrow> (\<exists>r\<in>set df. bucket r = b \<and> label r = l)"
  by (induction df) (auto simp: count_rows_def)

lemma map_of_groupby_value_counts:
  "map_of (groupby_value_counts df) (b, l)
     = (if 0 < count_rows df b l then Some (int (count_rows df b l)) else None)"
  unfolding groupby_value_counts_def
  by (auto simp add: map_of_concat_tagged map_of_value_counts count_list_labels count_rows_pos_iff)

lemma keys_groupby_value_counts:
  "fst ` set (groupby_value_counts df) = {(b, l). 0 < count_rows df b l}"
proof -
  have "fst ` set (groupby_value_counts df) = dom (map_of (groupby_value_counts df))"
    by (simp add: dom_map_of_conv_image_fst)
  also have "\<dots> = {(b, l). 0 < count_rows df b l}"
    by (auto simp: dom_def map_of_groupby_value_counts split: if_splits)
  finally show ?thesis .
qed

lemma buckets_groupby_value_counts:
  "set (map (fst \<circ> fst) (groupby_value_counts df)) = set (map bucket df)"
proof -
  have "set (map (fst \<circ> fst) (groupby_value_counts df)) = fst ` (fst ` set (groupby_value_counts df))"
    by (simp add: image_comp)
  also have "\<dots> = set (map bucket df)"
    unfolding keys_groupby_value_counts by (force simp: count_rows_pos_iff)
  finally show ?thesis .
qed

lemma labels_groupby_value_counts:
  "set (map (snd \<circ> fst) (groupby_value_counts df)) = set (map label df)"
proof -
  have "set (map (snd \<circ> fst) (groupby_value_counts df)) = snd ` (fst ` set (groupby_value_counts df))"
    by (simp add: image_comp)
  also have "\<dots> = set (map label df)"
    unfolding keys_groupby_value_counts by (force simp: count_rows_pos_iff)
  finally show ?thesis .
qed

lemma sort_remdups_cong:
  "set xs = set ys \<Longrightarrow> sort (remdups xs) = sort (remdups (ys::'a::linorder list))"
  by (metis sorted_list_of_set_sort_remdups)

lemma pivot_char:
  "sentiment_summary_pivot df =
     \<lparr>index = buckets_of df,
      columns = map (\<lambda>l. (l, map (\<lambda>b. IntC (int (count_rows df b l))) (buckets_of df))) (labels_of df)\<rparr>"
proof -
  have i: "sort (remdups (map (fst \<circ> fst) (groupby_value_counts df))) = buckets_of df"
    unfolding buckets_of_def by (rule sort_remdups_cong) (rule buckets_groupby_value_counts)
  have c: "sort (remdups (map (snd \<circ> fst) (groupby_value_counts df))) = labels_of df"
    unfolding labels_of_def by (rule sort_remdups_cong) (rule labels_groupby_value_counts)
  have cellv: "(case map_of (groupby_value_counts df) (b, l) of Some c \<Rightarrow> IntC c | None \<Rightarrow> IntC 0)
       = IntC (int (count_rows df b l))" for b l
    by (simp add: map_of_groupby_value_counts)
  show ?thesis
    unfolding sentiment_summary_pivot_def unstack_def Let_def i c cellv ..
qed

subsection \<open>The column operations of the script on a row-wise frame\<close>

lemma pivot_frame_of: "sentiment_summary_pivot df = frame_of (buckets_of df) (count_cols df)"
  by (simp add: pivot_char frame_of_def count_cols_def comp_def)

lemma map_of_frame_of:
  "map_of (columns (frame_of bs fs)) name = map_option (\<lambda>g. map g bs) (map_of fs name)"
  by (induction fs) (auto simp: frame_of_def)

lemma index_frame_of [simp]: "index (frame_of bs fs) = bs"
  by (simp add: frame_of_def)

lemma update_map_snd:
  "AList.update k (f v) (map (\<lambda>(n, g). (n, f g)) al) = map (\<lambda>(n, g). (n, f g)) (AList.update k v al)"
  by (induction al) auto

lemma setitem_Ser_frame_of:
  "setitem name (Ser (map g bs)) (frame_of bs fs) = frame_of bs (AList.update name g fs)"
  using update_map_snd [of name "\<lambda>g. map g bs" g fs]
  by (simp add: setitem_def frame_of_def)

lemma getitem_frame_of:
  "map_of fs name = Some g \<Longrightarrow> getitem (frame_of bs fs) name = Inr (map g bs)"
  by (simp add: getitem_def map_of_frame_of)

lemma map2_map_map: "map2 h (map f xs) (map g xs) = map (\<lambda>x. h (f x) (g x)) xs"
  by (induction xs) auto

lemma setitem_add_frame_of:
  "setitem name (add_operand (get_col (frame_of bs fs) a d1) (get_col (frame_of bs fs) b d2))
     (frame_of bs fs)
   = frame_of bs (AList.update name
        (\<lambda>x. cell_add (or_default (map_of fs a) d1 x) (or_default (map_of fs b) d2 x)) fs)"
proof -
  let ?g = "\<lambda>x. cell_add (or_default (map_of fs a) d1 x) (or_default (map_of fs b) d2 x)"
  have "(case add_operand (get_col (frame_of bs fs) a d1) (get_col (frame_of bs fs) b d2) of
           Ser c \<Rightarrow> c | Scal x \<Rightarrow> replicate (length (index (frame_of bs fs))) x) = map ?g bs"
    by (cases "map_of fs a"; cases "map_of fs b")
       (simp_all add: get_col_def map_of_frame_of or_default_def map2_map_map map_replicate_const)
  then have "setitem name (add_operand (get_col (frame_of bs fs) a d1) (get_col (frame_of bs fs) b d2))
     (frame_of bs fs) = setitem name (Ser (map ?g bs)) (frame_of bs fs)"
    by (simp add: setitem_def)
  then show ?thesis by (simp only: setitem_Ser_frame_of)
qed

lemma truediv_frame_of:
  "truediv_series (get_col (frame_of bs fs) a d) (map t bs)
     = map (\<lambda>x. cell_truediv (or_default (map_of fs a) d x) (t x)) bs"
  by (cases "map_of fs a") (simp_all add: get_col_def map_of_frame_of or_default_def map2_map_map)

lemma sub_series_map: "sub_series (map f bs) (map g bs) = map (\<lambda>x. cell_sub (f x) (g x)) bs"
  by (simp add: sub_series_def map2_map_map)

lemma take_rows_map:
  "set order \<subseteq> {..<length bs} \<Longrightarrow> take_rows order (map g bs) = map g (take_rows order bs)"
  by (auto simp: take_rows_def)

lemma set_nargsort: "set (nargsort ks) = {..<length ks}"
  by (auto simp: nargsort_def Let_def)

lemma sort_values_frame_of:
  assumes "map_of fs key = Some g"
  shows "sort_values key (frame_of bs fs)
           = Inr (frame_of (take_rows (nargsort (map (to_float \<circ> g) bs)) bs) fs)"
proof -
  let ?order = "nargsort (map (to_float \<circ> g) bs)"
  have sub: "set ?order \<subseteq> {..<length bs}" by (simp add: set_nargsort)
  have "map (\<lambda>(name, col). (name, take_rows ?order col)) (columns (frame_of bs fs))
          = columns (frame_of (take_rows ?order bs) fs)"
    by (simp add: frame_of_def case_prod_beta take_rows_map [OF sub])
  moreover have "map_of (columns (frame_of bs fs)) key = Some (map g bs)"
    using assms by (simp add: map_of_frame_of)
  ultimately have "sort_values key (frame_of bs fs)
      = Inr \<lparr>index = take_rows ?order bs, columns = columns (frame_of (take_rows ?order bs) fs)\<rparr>"
    by (simp add: sort_values_def Let_def)
  then show ?thesis by (simp add: frame_of_def)
qed

lemma map_of_count_cols:
  "map_of (count_cols df) l =
     (if l \<in> label ` set df then Some (\<lambda>b. IntC (int (count_rows df b l))) else None)"
  by (simp add: count_cols_def map_of_map_restrict restrict_map_def labels_of_def)

lemma count_rows_absent: "l \<notin> label ` set df \<Longrightarrow> count_rows df b l = 0"
  using count_rows_pos_iff [of df b l] by auto

lemma or_default_count_cols:
  "or_default (map_of (count_cols df) l) (IntC 0) = (\<lambda>b. IntC (int (count_rows df b l)))"
  by (auto simp: map_of_count_cols or_default_def count_rows_absent)

lemma summary_char:
  "sentiment_summary df = Inr (frame_of (sorted_buckets df) (summary_cols df))"
proof -
  let ?bs = "buckets_of df"
  let ?f0 = "count_cols df"
  let ?f1 = "AList.update ''total'' (total_of df) ?f0"
  let ?f2 = "AList.update ''positive_rate'' (positive_rate_of df) ?f1"
  let ?f3 = "AList.update ''negative_rate'' (negative_rate_of df) ?f2"
  have s1: "setitem ''total''
              (add_operand (get_col (frame_of ?bs ?f0) ''POSITIVE'' (IntC 0))
                           (get_col (frame_of ?bs ?f0) ''NEGATIVE'' (IntC 0)))
              (frame_of ?bs ?f0) = frame_of ?bs ?f1"
    by (simp add: setitem_add_frame_of or_default_count_cols total_of_def [abs_def])
  have t1: "getitem (frame_of ?bs ?f1) ''total'' = Inr (map (total_of df) ?bs)"
    by (rule getitem_frame_of) (simp add: update_conv')
  have p1: "or_default (map_of ?f1 ''POSITIVE'') (IntC 0) = (\<lambda>b. IntC (int (count_rows df b ''POSITIVE'')))"
    by (simp add: update_conv' or_default_count_cols)
  have s2: "setitem ''positive_rate''
              (Ser (truediv_series (get_col (frame_of ?bs ?f1) ''POSITIVE'' (IntC 0))
                      (map (total_of df) ?bs)))
              (frame_of ?bs ?f1) = frame_of ?bs ?f2"
    by (simp add: truediv_frame_of p1 setitem_Ser_frame_of positive_rate_of_def [abs_def])
  have t2: "getitem (frame_of ?bs ?f2) ''total'' = Inr (map (total_of df) ?bs)"
    by (rule getitem_frame_of) (simp add: update_conv')
  have n2: "or_default (map_of ?f2 ''NEGATIVE'') (IntC 0) = (\<lambda>b. IntC (int (count_rows df b ''NEGATIVE'')))"
    by (simp add: update_conv' or_default_count_cols)
  have s3: "setitem ''negative_rate''
              (Ser (truediv_series (get_col (frame_of ?bs ?f2) ''NEGATIVE'' (IntC 0))
                      (map (total_of df) ?bs)))
              (frame_of ?bs ?f2) = frame_of ?bs ?f3"
    by (simp add: truediv_frame_of n2 setitem_Ser_frame_of negative_rate_of_def [abs_def])
  have pr: "getitem (frame_of ?bs ?f3) ''positive_rate'' = Inr (map (positive_rate_of df) ?bs)"
    by (rule getitem_frame_of) (simp add: update_conv')
  have nr: "getitem (frame_of ?bs ?f3) ''negative_rate'' = Inr (map (negative_rate_of df) ?bs)"
    by (rule getitem_frame_of) (simp add: update_conv')
  have s4: "setitem ''sentiment_score''
              (Ser (sub_series (map (positive_rate_of df) ?bs) (map (negative_rate_of df) ?bs)))
              (frame_of ?bs ?f3) = frame_of ?bs (summary_cols df)"
    by (simp add: sub_series_map setitem_Ser_frame_of score_of_def [abs_def] summary_cols_def)
  have srt: "sort_values ''sentiment_score'' (frame_of ?bs (summary_cols df))
               = Inr (frame_of (sorted_buckets df) (summary_cols df))"
    unfolding sorted_buckets_def
    by (rule sort_values_frame_of) (simp add: summary_cols_def update_conv')
  show ?thesis
    unfolding sentiment_summary_def Let_def pivot_frame_of
    by (simp only: s1 t1 s2 t2 s3 pr nr s4 srt sum.case)
qed

subsection \<open>The summary, one cell at a time\<close>

lemma cell_at_frame_of:
  "cell_at (frame_of bs fs) b name =
     (case map_of fs name of
        None \<Rightarrow> None
      | Some g \<Rightarrow> if b \<in> set bs then Some (g b) else None)"
  by (simp add: cell_at_def map_of_frame_of map_of_zip_map split: option.splits)

lemma mset_sort_partition:
  "mset (sort_key f (filter (\<lambda>i. \<not> P i) xs) @ filter P xs) = mset xs"
proof -
  have "mset (filter P xs) + mset (filter (\<lambda>i. \<not> P i) xs) = mset xs"
    by (induction xs) auto
  then show ?thesis by (simp add: ac_simps)
qed

lemma mset_nargsort: "mset (nargsort ks) = mset [0..<length ks]"
  unfolding nargsort_def Let_def by (rule mset_sort_partition)

lemma mset_take_rows:
  assumes "mset order = mset [0..<length bs]"
  shows "mset (take_rows order bs) = mset bs"
proof -
  have "mset (take_rows order bs) = image_mset (\<lambda>i. bs ! i) (mset order)"
    by (simp add: take_rows_def)
  also have "\<dots> = mset (map (\<lambda>i. bs ! i) [0..<length bs])"
    by (simp add: assms)
  also have "\<dots> = mset bs"
    by (simp add: map_nth)
  finally show ?thesis .
qed

lemma mset_sorted_buckets: "mset (sorted_buckets df) = mset (buckets_of df)"
  unfolding sorted_buckets_def by (rule mset_take_rows) (simp add: mset_nargsort)

lemma set_buckets_of: "set (buckets_of df) = bucket ` set df"
  by (simp add: buckets_of_def)

lemma distinct_buckets_of: "distinct (buckets_of df)"
  by (simp add: buckets_of_def)

lemma set_sorted_buckets: "set (sorted_buckets df) = bucket ` set df"
  using mset_sorted_buckets [of df] set_buckets_of [of df] by (metis set_mset_mset)


lemma map_of_summary_cols:
  "map_of (summary_cols df) =
     (map_of (count_cols df))
       (''total'' \<mapsto> total_of df, ''positive_rate'' \<mapsto> positive_rate_of df,
        ''negative_rate'' \<mapsto> negative_rate_of df, ''sentiment_score'' \<mapsto> score_of df)"
  by (simp add: summary_cols_def update_conv')

lemma summary_cell:
  "cell_at (frame_of (sorted_buckets df) (summary_cols df)) b name =
     (if b \<in> bucket ` set df
      then map_option (\<lambda>g. g b) (map_of (summary_cols df) name) else None)"
  by (simp add: cell_at_frame_of set_sorted_buckets split: option.splits)

lemma total_of_eq:
  "total_of df b = IntC (int (count_rows df b ''POSITIVE'' + count_rows df b ''NEGATIVE''))"
  by (simp add: total_of_def)

lemma positive_rate_of_eq:
  "positive_rate_of df b =
     FloatC (fdiv (Fin (of_nat (count_rows df b ''POSITIVE'')))
                  (Fin (of_nat (count_rows df b ''POSITIVE'' + count_rows df b ''NEGATIVE''))))"
  by (simp add: positive_rate_of_def total_of_def cell_truediv_def)

lemma negative_rate_of_eq:
  "negative_rate_of df b =
     FloatC (fdiv (Fin (of_nat (count_rows df b ''NEGATIVE'')))
                  (Fin (of_nat (count_rows df b ''POSITIVE'' + count_rows df b ''NEGATIVE''))))"
  by (simp add: negative_rate_of_def total_of_def cell_truediv_def)

lemma score_of_eq:
  "score_of df b =
     FloatC (fsub
       (fdiv (Fin (of_nat (count_rows df b ''POSITIVE'')))
             (Fin (of_nat (count_rows df b ''POSITIVE'' + count_rows df b ''NEGATIVE''))))
       (fdiv (Fin (of_nat (count_rows df b ''NEGATIVE'')))
             (Fin (of_nat (count_rows df b ''POSITIVE'' + count_rows df b ''NEGATIVE'')))))"
  unfolding score_of_def positive_rate_of_eq negative_rate_of_eq by simp


lemma set_labels_of: "set (labels_of df) = label ` set df"
  by (simp add: labels_of_def)

lemma distinct_labels_of: "distinct (labels_of df)"
  by (simp add: labels_of_def)

lemma names_count_cols: "map fst (count_cols df) = labels_of df"
  by (simp add: count_cols_def comp_def)

lemma names_frame_of: "map fst (columns (frame_of bs fs)) = map fst fs"
  by (simp add: frame_of_def comp_def case_prod_beta)

lemma length_columns_frame_of: "c \<in> set (columns (frame_of bs fs)) \<Longrightarrow> length (snd c) = length bs"
  by (auto simp: frame_of_def)

lemma pivot_cell:
  "cell_at (sentiment_summary_pivot df) b l =
     (if b \<in> bucket ` set df \<and> l \<in> label ` set df
      then Some (IntC (int (count_rows df b l))) else None)"
  by (simp add: pivot_frame_of cell_at_frame_of map_of_count_cols set_buckets_of)

lemma summary_cell_derived:
  assumes "b \<in> bucket ` set df"
  shows "\<exists>s. sentiment_summary df = Inr s \<and> b \<in> set (index s) \<and>
           cell_at s b ''total'' = Some (total_of df b) \<and>
           cell_at s b ''positive_rate'' = Some (positive_rate_of df b) \<and>
           cell_at s b ''negative_rate'' = Some (negative_rate_of df b) \<and>
           cell_at s b ''sentiment_score'' = Some (score_of df b)"
  using assms summary_char [of df]
  by (intro exI [of _ "frame_of (sorted_buckets df) (summary_cols df)"])
     (simp add: summary_cell map_of_summary_cols set_sorted_buckets)

lemma bucket_of_counted: "0 < count_rows df b l \<Longrightarrow> b \<in> bucket ` set df"
  using count_rows_pos_iff [of df b l] by auto

lemma bucket_of_total:
  "0 < count_rows df b ''POSITIVE'' + count_rows df b ''NEGATIVE'' \<Longrightarrow> b \<in> bucket ` set df"
  using bucket_of_counted [of df b "''POSITIVE''"] bucket_of_counted [of df b "''NEGATIVE''"]
  by linarith

subsection \<open>Arithmetic of the rates\<close>

lemma total_nonzero:
  "0 < p + n \<Longrightarrow> (of_nat p + of_nat n :: rat) \<noteq> 0"
  by (metis of_nat_add of_nat_0_eq_iff less_numeral_extra(3))

lemma rates_add:
  assumes "0 < p + n"
  shows "fadd (fdiv (Fin (of_nat p)) (Fin (of_nat (p + n))))
              (fdiv (Fin (of_nat n)) (Fin (of_nat (p + n)))) = Fin 1"
proof -
  let ?t = "of_nat p + of_nat n :: rat"
  have nz: "?t \<noteq> 0" by (rule total_nonzero [OF assms])
  have "of_nat p / ?t + of_nat n / ?t = ?t / ?t"
    by (simp only: add_divide_distrib)
  also have "\<dots> = 1" using nz by simp
  finally show ?thesis using nz by simp
qed



subsection \<open>Rows with other labels\<close>

lemma count_rows_filter:
  assumes "\<And>r. label r = l \<Longrightarrow> Q r"
  shows "count_rows (filter Q df) b l = count_rows df b l"
proof -
  have "filter (\<lambda>r. bucket r = b \<and> label r = l) (filter Q df)
          = filter (\<lambda>r. bucket r = b \<and> label r = l) df"
    using assms by (induction df) auto
  then show ?thesis by (simp add: count_rows_def)
qed

lemma count_rows_same_polar_rows:
  assumes "filter (\<lambda>r. label r = ''POSITIVE'' \<or> label r = ''NEGATIVE'') df'
             = filter (\<lambda>r. label r = ''POSITIVE'' \<or> label r = ''NEGATIVE'') df"
  shows "count_rows df' b ''POSITIVE'' = count_rows df b ''POSITIVE''"
    and "count_rows df' b ''NEGATIVE'' = count_rows df b ''NEGATIVE''"
proof -
  let ?Q = "\<lambda>r. label r = ''POSITIVE'' \<or> label r = ''NEGATIVE''"
  have "count_rows df' b ''POSITIVE'' = count_rows (filter ?Q df') b ''POSITIVE''"
    by (rule count_rows_filter [symmetric]) simp
  also have "\<dots> = count_rows (filter ?Q df) b ''POSITIVE''" by (simp only: assms)
  also have "\<dots> = count_rows df b ''POSITIVE''" by (rule count_rows_filter) simp
  finally show "count_rows df' b ''POSITIVE'' = count_rows df b ''POSITIVE''" .
  have "count_rows df' b ''NEGATIVE'' = count_rows (filter ?Q df') b ''NEGATIVE''"
    by (rule count_rows_filter [symmetric]) simp
  also have "\<dots> = count_rows (filter ?Q df) b ''NEGATIVE''" by (simp only: assms)
  also have "\<dots> = count_rows df b ''NEGATIVE''" by (rule count_rows_filter) simp
  finally show "count_rows df' b ''NEGATIVE'' = count_rows df b ''NEGATIVE''" .
qed

lemma derived_same_polar_rows:
  assumes "filter (\<lambda>r. label r = ''POSITIVE'' \<or> label r = ''NEGATIVE'') df'
             = filter (\<lambda>r. label r = ''POSITIVE'' \<or> label r = ''NEGATIVE'') df"
  shows "total_of df' b = total_of df b" "positive_rate_of df' b = positive_rate_of df b"
    "negative_rate_of df' b = negative_rate_of df b" "score_of df' b = score_of df b"
  by (simp_all add: score_of_def positive_rate_of_def negative_rate_of_def total_of_def
        count_rows_same_polar_rows [OF assms])

subsection \<open>The sort\<close>









subsection \<open>The widgets of a run\<close>

lemma load_csv_widgets:
  assumes "load_csv e = (loaded, r)"
  shows "\<forall>x\<in>set loaded. (\<exists>t. x = StWrite t) \<or> (\<exists>t. x = StButton t) \<or>
           (\<exists>t. x = StError t) \<or> (\<exists>t. x = StInfo t)"
  using assms
  by (auto simp: load_csv_def split: option.splits sum.splits fault.splits if_splits)

lemma page_head_widgets:
  "\<forall>x\<in>set page_head. (\<exists>a b. x = StPageConfig a b) \<or> (\<exists>t. x = StTitle t) \<or>
     (\<exists>t. x = StWrite t) \<or> (\<exists>t. x = StFileUploader t)"
  by (simp add: page_head_def)

lemma show_results_empty:
  "result_df = None \<or> result_df = Some [] \<Longrightarrow>
   show_results result_df =
     ([StWarning ''No relevant clauses were found with the current keywords.''], None)"
  by (auto simp: show_results_def)

lemma plot_confidence_histogram_nonempty:
  "rows \<noteq> [] \<Longrightarrow>
   plot_confidence_histogram (Some rows) = [StPyplot (Hist (map confidence rows) 20)]"
  by (simp add: plot_confidence_histogram_def)

lemma show_results_nonempty:
  assumes "rows \<noteq> []"
  shows "\<exists>s sc. sentiment_summary rows = Inr s \<and> getitem s ''sentiment_score'' = Inr sc \<and>
     show_results (Some rows) =
       ([StSuccess ''Sentiment analysis complete!'',
         StSubheader ''Model Confidence Distribution'',
         StPyplot (Hist (map confidence rows) 20),
         StSubheader ''Feature-Level Sentiment Summary'',
         StDataframe (sentiment_summary_pivot rows),
         StSubheader ''Feature Sentiment Scores'',
         StPyplot (Barh (index s) (map to_float sc)
                    (map (\<lambda>x. if fle (Fin 0) (to_float x) then ''#4CAF50'' else ''#F44336'') sc))],
        None)"
proof -
  let ?s = "frame_of (sorted_buckets rows) (summary_cols rows)"
  let ?sc = "map (score_of rows) (sorted_buckets rows)"
  have s: "sentiment_summary rows = Inr ?s" by (rule summary_char)
  have col: "getitem ?s ''sentiment_score'' = Inr ?sc"
    by (rule getitem_frame_of) (simp add: map_of_summary_cols)
  show ?thesis
    using assms s col
    by (intro exI [of _ ?s] exI [of _ ?sc])
       (simp add: show_results_def plot_confidence_histogram_nonempty)
qed

lemma show_results_no_histogram_warning:
  "StWarning ''No sentiment data available to plot confidence histogram.''
     \<notin> set (fst (show_results result_df))"
proof (cases "result_df = None \<or> result_df = Some []")
  case True
  then show ?thesis by (simp add: show_results_empty)
next
  case False
  then obtain rows where r: "result_df = Some rows" "rows \<noteq> []" by auto
  from show_results_nonempty [OF r(2)] show ?thesis unfolding r(1) by auto
qed

lemma run_analysis_no_histogram_warning:
  "StWarning ''No sentiment data available to plot confidence histogram.''
     \<notin> set (fst (run_analysis e df))"
  using show_results_no_histogram_warning
  by (simp add: run_analysis_def case_prod_beta split: option.splits sum.splits)

section \<open>Claims\<close>



text \<open>
  Claim C2. The pivot of line 80 has exactly one row per distinct bucket of the table and
  exactly one column per distinct label, every column as long as the index; the cell of
  bucket \<open>b\<close> and label \<open>l\<close> is the number of rows of the table with that bucket and
  label, so a combination the table does not have gets 0.
\<close>

theorem pivot_shape:
  "distinct (index (sentiment_summary_pivot df)) \<and>
   set (index (sentiment_summary_pivot df)) = bucket ` set df \<and>
   distinct (map fst (columns (sentiment_summary_pivot df))) \<and>
   set (map fst (columns (sentiment_summary_pivot df))) = label ` set df \<and>
   (\<forall>c\<in>set (columns (sentiment_summary_pivot df)).
      length (snd c) = length (index (sentiment_summary_pivot df))) \<and>
   (\<forall>b\<in>bucket ` set df. \<forall>l\<in>label ` set df.
      cell_at (sentiment_summary_pivot df) b l = Some (IntC (int (count_rows df b l))) \<and>
      ((\<forall>r\<in>set df. \<not> (bucket r = b \<and> label r = l)) \<longrightarrow>
         cell_at (sentiment_summary_pivot df) b l = Some (IntC 0)))"
proof (intro conjI ballI impI)
  show "distinct (index (sentiment_summary_pivot df))"
    by (simp add: pivot_frame_of distinct_buckets_of)
  show "set (index (sentiment_summary_pivot df)) = bucket ` set df"
    by (simp add: pivot_frame_of set_buckets_of)
  show "distinct (map fst (columns (sentiment_summary_pivot df)))"
    by (simp only: pivot_frame_of names_frame_of names_count_cols distinct_labels_of)
  show "set (map fst (columns (sentiment_summary_pivot df))) = label ` set df"
    by (simp only: pivot_frame_of names_frame_of names_count_cols set_labels_of)
next
  fix c assume "c \<in> set (columns (sentiment_summary_pivot df))"
  then show "length (snd c) = length (index (sentiment_summary_pivot df))"
    by (simp add: pivot_frame_of length_columns_frame_of)
next
  fix b l assume bl: "b \<in> bucket ` set df" "l \<in> label ` set df"
  then show "cell_at (sentiment_summary_pivot df) b l = Some (IntC (int (count_rows df b l)))"
    by (simp add: pivot_cell)
  assume "\<forall>r\<in>set df. \<not> (bucket r = b \<and> label r = l)"
  then have "count_rows df b l = 0"
    using count_rows_pos_iff [of df b l] by auto
  with bl show "cell_at (sentiment_summary_pivot df) b l = Some (IntC 0)"
    by (simp add: pivot_cell)
qed

theorem pivot_shape_witness:
  "cell_at (sentiment_summary_pivot
      [\<lparr>bucket = ''support'', label = ''NEGATIVE'', confidence = Fin (9 / 10)\<rparr>,
       \<lparr>bucket = ''price'', label = ''POSITIVE'', confidence = Fin (4 / 5)\<rparr>,
       \<lparr>bucket = ''support'', label = ''NEGATIVE'', confidence = Fin (1 / 2)\<rparr>])
     ''price'' ''NEGATIVE'' = Some (IntC 0) \<and>
   cell_at (sentiment_summary_pivot
      [\<lparr>bucket = ''support'', label = ''NEGATIVE'', confidence = Fin (9 / 10)\<rparr>,
       \<lparr>bucket = ''price'', label = ''POSITIVE'', confidence = Fin (4 / 5)\<rparr>,
       \<lparr>bucket = ''support'', label = ''NEGATIVE'', confidence = Fin (1 / 2)\<rparr>])
     ''support'' ''NEGATIVE'' = Some (IntC 2) \<and>
   set (index (sentiment_summary_pivot
      [\<lparr>bucket = ''support'', label = ''NEGATIVE'', confidence = Fin (9 / 10)\<rparr>,
       \<lparr>bucket = ''price'', label = ''POSITIVE'', confidence = Fin (4 / 5)\<rparr>,
       \<lparr>bucket = ''support'', label = ''NEGATIVE'', confidence = Fin (1 / 2)\<rparr>])) =
     {''price'', ''support''}"
proof -
  let ?df = "[\<lparr>bucket = ''support'', label = ''NEGATIVE'', confidence = Fin (9 / 10)\<rparr>,
       \<lparr>bucket = ''price'', label = ''POSITIVE'', confidence = Fin (4 / 5)\<rparr>,
       \<lparr>bucket = ''support'', label = ''NEGATIVE'', confidence = Fin (1 / 2)\<rparr>]"
  note p = pivot_shape [of ?df]
  have b1: "''price'' \<in> bucket ` set ?df" and b2: "''support'' \<in> bucket ` set ?df"
    and l: "''NEGATIVE'' \<in> label ` set ?df" by simp_all
  have absent: "\<forall>r\<in>set ?df. \<not> (bucket r = ''price'' \<and> label r = ''NEGATIVE'')" by simp
  from p b1 l absent have c1: "cell_at (sentiment_summary_pivot ?df) ''price'' ''NEGATIVE'' = Some (IntC 0)"
    by blast
  from p b2 l have "cell_at (sentiment_summary_pivot ?df) ''support'' ''NEGATIVE''
      = Some (IntC (int (count_rows ?df ''support'' ''NEGATIVE'')))" by blast
  then have c2: "cell_at (sentiment_summary_pivot ?df) ''support'' ''NEGATIVE'' = Some (IntC 2)"
    by (simp add: count_rows_def)
  from p have "set (index (sentiment_summary_pivot ?df)) = bucket ` set ?df" by blast
  then have c3: "set (index (sentiment_summary_pivot ?df)) = {''price'', ''support''}" by auto
  from c1 c2 c3 show ?thesis by blast
qed

text \<open>
  Claim C3. When the table has no label other than POSITIVE and NEGATIVE, every bucket whose
  total (the POSITIVE count plus the NEGATIVE count) is positive is a row of the summary, and
  there \<open>positive_rate + negative_rate = 1\<close>.
\<close>

theorem rates_sum_to_one:
  assumes "\<forall>r\<in>set df. label r = ''POSITIVE'' \<or> label r = ''NEGATIVE''"
    and "0 < count_rows df b ''POSITIVE'' + count_rows df b ''NEGATIVE''"
  shows "\<exists>s pr nr. sentiment_summary df = Inr s \<and> b \<in> set (index s) \<and>
           cell_at s b ''total'' =
             Some (IntC (int (count_rows df b ''POSITIVE'' + count_rows df b ''NEGATIVE''))) \<and>
           cell_at s b ''positive_rate'' = Some (FloatC pr) \<and>
           cell_at s b ''negative_rate'' = Some (FloatC nr) \<and>
           fadd pr nr = Fin 1"
proof -
  from summary_cell_derived [OF bucket_of_total [OF assms(2)]]
  obtain s where "sentiment_summary df = Inr s" "b \<in> set (index s)"
    "cell_at s b ''total'' = Some (total_of df b)"
    "cell_at s b ''positive_rate'' = Some (positive_rate_of df b)"
    "cell_at s b ''negative_rate'' = Some (negative_rate_of df b)"
    by blast
  then show ?thesis
    unfolding total_of_eq positive_rate_of_eq negative_rate_of_eq
    using rates_add [OF assms(2)] by blast
qed

theorem rates_sum_to_one_witness:
  "\<exists>s pr nr.
     sentiment_summary
       [\<lparr>bucket = ''price'', label = ''POSITIVE'', confidence = Fin (4 / 5)\<rparr>,
        \<lparr>bucket = ''price'', label = ''NEGATIVE'', confidence = Fin (3 / 5)\<rparr>,
        \<lparr>bucket = ''price'', label = ''NEGATIVE'', confidence = Fin (1 / 2)\<rparr>] = Inr s \<and>
     ''price'' \<in> set (index s) \<and>
     cell_at s ''price'' ''total'' = Some (IntC 3) \<and>
     cell_at s ''price'' ''positive_rate'' = Some (FloatC pr) \<and>
     cell_at s ''price'' ''negative_rate'' = Some (FloatC nr) \<and>
     fadd pr nr = Fin 1"
proof -
  let ?df = "[\<lparr>bucket = ''price'', label = ''POSITIVE'', confidence = Fin (4 / 5)\<rparr>,
        \<lparr>bucket = ''price'', label = ''NEGATIVE'', confidence = Fin (3 / 5)\<rparr>,
        \<lparr>bucket = ''price'', label = ''NEGATIVE'', confidence = Fin (1 / 2)\<rparr>]"
  have two: "\<forall>r\<in>set ?df. label r = ''POSITIVE'' \<or> label r = ''NEGATIVE''" by simp
  have cnt: "count_rows ?df ''price'' ''POSITIVE'' + count_rows ?df ''price'' ''NEGATIVE'' = 3"
    by (simp add: count_rows_def)
  then have pos: "0 < count_rows ?df ''price'' ''POSITIVE'' + count_rows ?df ''price'' ''NEGATIVE''"
    by simp
  show ?thesis using rates_sum_to_one [OF two pos] unfolding cnt by simp
qed






text \<open>
  Claim C6. Nothing guards the divisions of lines 87 and 88 against a zero total: for a
  bucket of the table with no POSITIVE and no NEGATIVE row the total is 0, both rates are the
  float64 quotient \<open>0 / 0\<close>, that is NaN, and so is the score. No exception is raised: the
  summary is still returned. A table whose only row is (price, NEUTRAL) has such a bucket.
\<close>

theorem zero_total_undefined_rates:
  assumes "b \<in> bucket ` set df"
    and "count_rows df b ''POSITIVE'' = 0"
    and "count_rows df b ''NEGATIVE'' = 0"
  shows "\<exists>s. sentiment_summary df = Inr s \<and> b \<in> set (index s) \<and>
           cell_at s b ''total'' = Some (IntC 0) \<and>
           cell_at s b ''positive_rate'' = Some (FloatC (fdiv (Fin 0) (Fin 0))) \<and>
           cell_at s b ''negative_rate'' = Some (FloatC (fdiv (Fin 0) (Fin 0))) \<and>
           fdiv (Fin 0) (Fin 0) = NaN \<and>
           cell_at s b ''sentiment_score'' = Some (FloatC NaN)"
proof -
  from summary_cell_derived [OF assms(1)]
  obtain s where s: "sentiment_summary df = Inr s" "b \<in> set (index s)"
    "cell_at s b ''total'' = Some (total_of df b)"
    "cell_at s b ''positive_rate'' = Some (positive_rate_of df b)"
    "cell_at s b ''negative_rate'' = Some (negative_rate_of df b)"
    "cell_at s b ''sentiment_score'' = Some (score_of df b)"
    by blast
  then show ?thesis
    unfolding total_of_eq positive_rate_of_eq negative_rate_of_eq score_of_eq
    by (intro exI [of _ s]) (simp add: assms(2,3) fsub_def)
qed

theorem zero_total_undefined_rates_witness:
  "\<exists>s. sentiment_summary
         [\<lparr>bucket = ''price'', label = ''NEUTRAL'', confidence = Fin (7 / 10)\<rparr>,
          \<lparr>bucket = ''app'', label = ''POSITIVE'', confidence = Fin (9 / 10)\<rparr>] = Inr s \<and>
       ''price'' \<in> set (index s) \<and>
       cell_at s ''price'' ''total'' = Some (IntC 0) \<and>
       cell_at s ''price'' ''positive_rate'' = Some (FloatC NaN) \<and>
       cell_at s ''price'' ''negative_rate'' = Some (FloatC NaN) \<and>
       cell_at s ''price'' ''sentiment_score'' = Some (FloatC NaN)"
proof -
  let ?df = "[\<lparr>bucket = ''price'', label = ''NEUTRAL'', confidence = Fin (7 / 10)\<rparr>,
          \<lparr>bucket = ''app'', label = ''POSITIVE'', confidence = Fin (9 / 10)\<rparr>]"
  have b: "''price'' \<in> bucket ` set ?df" by simp
  have p: "count_rows ?df ''price'' ''POSITIVE'' = 0" by (simp add: count_rows_def)
  have n: "count_rows ?df ''price'' ''NEGATIVE'' = 0" by (simp add: count_rows_def)
  show ?thesis using zero_total_undefined_rates [OF b p n] by simp
qed

text \<open>
  Claim C7. Whenever a reviews table was loaded, from the upload or from the default file,
  the run button was pressed, and \<^verbatim>\<open>analyze_sentiment\<close> returned None or a table with no
  rows, the run ends without an uncaught exception; after the widgets of the page head and
  of the loading step it emits the run button, the spinner and the warning, and nothing
  else: no histogram, no table and no bar chart. \<open>plot_confidence_histogram\<close> is not
  called on this path.
\<close>

theorem empty_result_warns_and_skips:
  assumes "load_csv e = (loaded, Inr (Some d))"
    and "run_clicked e"
    and "analyze_sentiment e d ''cleaned_content'' = Inr result_df"
    and "result_df = None \<or> result_df = Some []"
  shows "app e =
           (page_head @ loaded @
            [StButton ''Run Feature Specific Analysis'',
             StSpinner ''Running sentiment analysis... This may take a few minutes...'',
             StWarning ''No relevant clauses were found with the current keywords.''],
            None)
         \<and> (\<forall>x\<in>set (fst (app e)). \<not> is_rendering x)"
proof -
  have run: "run_analysis e (Some d) =
      ([StButton ''Run Feature Specific Analysis'',
        StSpinner ''Running sentiment analysis... This may take a few minutes...'',
        StWarning ''No relevant clauses were found with the current keywords.''], None)"
    using assms(2,3) show_results_empty [OF assms(4)] by (simp add: run_analysis_def)
  have app: "app e =
           (page_head @ loaded @
            [StButton ''Run Feature Specific Analysis'',
             StSpinner ''Running sentiment analysis... This may take a few minutes...'',
             StWarning ''No relevant clauses were found with the current keywords.''],
            None)"
    using assms(1) run by (simp add: app_def)
  have "\<forall>x\<in>set loaded. \<not> is_rendering x"
    using load_csv_widgets [OF assms(1)] by auto
  moreover have "\<forall>x\<in>set page_head. \<not> is_rendering x"
    using page_head_widgets by auto
  ultimately have "\<forall>x\<in>set (fst (app e)). \<not> is_rendering x"
    unfolding app by auto
  with app show ?thesis by blast
qed

theorem empty_result_warns_and_skips_witness:
  "app \<lparr>uploaded_file = Some (Inr \<lparr>header = [''cleaned_content''], records = [[''too expensive'']]\<rparr>),
        use_default_clicked = False,
        read_default_csv = Inl FileNotFoundError,
        run_clicked = True,
        analyze_sentiment = (\<lambda>df text_column. Inr (Some []))\<rparr>
     = (page_head @
        [StWrite (''Loaded '' @ str_nat 1 @ '' reviews from uploaded CSV.''),
         StButton ''Run Feature Specific Analysis'',
         StSpinner ''Running sentiment analysis... This may take a few minutes...'',
         StWarning ''No relevant clauses were found with the current keywords.''],
        None)"
proof -
  let ?d = "\<lparr>header = [''cleaned_content''], records = [[''too expensive'']]\<rparr>"
  let ?e = "\<lparr>uploaded_file = Some (Inr ?d),
        use_default_clicked = False,
        read_default_csv = Inl FileNotFoundError,
        run_clicked = True,
        analyze_sentiment = (\<lambda>df text_column. Inr (Some []))\<rparr>"
  have l: "load_csv ?e = ([StWrite (''Loaded '' @ str_nat 1 @ '' reviews from uploaded CSV.'')],
                          Inr (Some ?d))"
    by (simp add: load_csv_def)
  have r: "run_clicked ?e" by simp
  have a: "analyze_sentiment ?e ?d ''cleaned_content'' = Inr (Some [])" by simp
  have n: "Some [] = None \<or> Some ([] :: result_row list) = Some []" by simp
  from empty_result_warns_and_skips [OF l r a n] show ?thesis by simp
qed

text \<open>
  Claim C8. When nothing is uploaded, the default button is pressed and
  \<^verbatim>\<open>pd.read_csv(DEFAULT_CSV)\<close> raises FileNotFoundError, the script shows the error message
  naming \<^verbatim>\<open>data/processed/noom_google_clean.csv\<close>, leaves \<^verbatim>\<open>df\<close> at None and ends the
  run with no uncaught exception and nothing further on the page. That is the only loading
  failure handled: any other exception from reading the default file, and any exception
  from reading an upload, leaves the script uncaught.
\<close>

theorem missing_default_csv:
  "(uploaded_file e = None \<and> use_default_clicked e \<and>
    read_default_csv e = Inl FileNotFoundError \<longrightarrow>
      load_csv e =
        ([StButton ''Use default processed CSV'',
          StError ''Default CSV not found at data/processed/noom_google_clean.csv. Please upload a file.''],
         Inr None) \<and>
      app e =
        (page_head @
         [StButton ''Use default processed CSV'',
          StError ''Default CSV not found at data/processed/noom_google_clean.csv. Please upload a file.''],
         None))
   \<and>
   (uploaded_file e = None \<and> use_default_clicked e \<and>
    read_default_csv e = Inl x \<and> x \<noteq> FileNotFoundError \<longrightarrow>
      app e = (page_head @ [StButton ''Use default processed CSV''], Some x))
   \<and>
   (uploaded_file e = Some (Inl x) \<longrightarrow> app e = (page_head, Some x))"
proof (intro conjI impI)
  assume h: "uploaded_file e = None \<and> use_default_clicked e \<and>
    read_default_csv e = Inl FileNotFoundError"
  then show l: "load_csv e =
        ([StButton ''Use default processed CSV'',
          StError ''Default CSV not found at data/processed/noom_google_clean.csv. Please upload a file.''],
         Inr None)"
    by (simp add: load_csv_def DEFAULT_CSV_def)
  show "app e =
        (page_head @
         [StButton ''Use default processed CSV'',
          StError ''Default CSV not found at data/processed/noom_google_clean.csv. Please upload a file.''],
         None)"
    by (simp add: app_def l run_analysis_def)
next
  assume h: "uploaded_file e = None \<and> use_default_clicked e \<and>
    read_default_csv e = Inl x \<and> x \<noteq> FileNotFoundError"
  then have "load_csv e = ([StButton ''Use default processed CSV''], Inl x)"
    by (cases x) (simp_all add: load_csv_def)
  then show "app e = (page_head @ [StButton ''Use default processed CSV''], Some x)"
    by (simp add: app_def)
next
  assume "uploaded_file e = Some (Inl x)"
  then have "load_csv e = ([], Inl x)"
    by (simp add: load_csv_def)
  then show "app e = (page_head, Some x)"
    by (simp add: app_def)
qed

theorem missing_default_csv_witness:
  "app \<lparr>uploaded_file = None, use_default_clicked = True,
        read_default_csv = Inl FileNotFoundError, run_clicked = False,
        analyze_sentiment = (\<lambda>df text_column. Inr None)\<rparr>
     = (page_head @
        [StButton ''Use default processed CSV'',
         StError ''Default CSV not found at data/processed/noom_google_clean.csv. Please upload a file.''],
        None) \<and>
   app \<lparr>uploaded_file = None, use_default_clicked = True,
        read_default_csv = Inl (OtherError ''ParserError''), run_clicked = False,
        analyze_sentiment = (\<lambda>df text_column. Inr None)\<rparr>
     = (page_head @ [StButton ''Use default processed CSV''], Some (OtherError ''ParserError'')) \<and>
   app \<lparr>uploaded_file = Some (Inl (OtherError ''EmptyDataError'')), use_default_clicked = False,
        read_default_csv = Inl FileNotFoundError, run_clicked = False,
        analyze_sentiment = (\<lambda>df text_column. Inr None)\<rparr>
     = (page_head, Some (OtherError ''EmptyDataError''))"
proof -
  let ?e1 = "\<lparr>uploaded_file = None, use_default_clicked = True,
        read_default_csv = Inl FileNotFoundError, run_clicked = False,
        analyze_sentiment = (\<lambda>df text_column. Inr None)\<rparr>"
  let ?e2 = "\<lparr>uploaded_file = None, use_default_clicked = True,
        read_default_csv = Inl (OtherError ''ParserError''), run_clicked = False,
        analyze_sentiment = (\<lambda>df text_column. Inr None)\<rparr>"
  let ?e3 = "\<lparr>uploaded_file = Some (Inl (OtherError ''EmptyDataError'')), use_default_clicked = False,
        read_default_csv = Inl FileNotFoundError, run_clicked = False,
        analyze_sentiment = (\<lambda>df text_column. Inr None)\<rparr>"
  have h1: "uploaded_file ?e1 = None \<and> use_default_clicked ?e1 \<and>
    read_default_csv ?e1 = Inl FileNotFoundError" by simp
  have h2: "uploaded_file ?e2 = None \<and> use_default_clicked ?e2 \<and>
    read_default_csv ?e2 = Inl (OtherError ''ParserError'') \<and>
    OtherError ''ParserError'' \<noteq> FileNotFoundError" by simp
  have h3: "uploaded_file ?e3 = Some (Inl (OtherError ''EmptyDataError''))" by simp
  from missing_default_csv [of ?e1] h1 have c1: "app ?e1 = (page_head @
        [StButton ''Use default processed CSV'',
         StError ''Default CSV not found at data/processed/noom_google_clean.csv. Please upload a file.''],
        None)" by blast
  from missing_default_csv [of ?e2 "OtherError ''ParserError''"] h2
  have c2: "app ?e2 = (page_head @ [StButton ''Use default processed CSV''],
                       Some (OtherError ''ParserError''))" by blast
  from missing_default_csv [of ?e3 "OtherError ''EmptyDataError''"] h3
  have c3: "app ?e3 = (page_head, Some (OtherError ''EmptyDataError''))" by blast
  from c1 c2 c3 show ?thesis by blast
qed

text \<open>
  Claim C9. The total is the POSITIVE count plus the NEGATIVE count whatever other labels
  the table has. So \<open>positive_rate + negative_rate = 1\<close> holds for every bucket with a
  positive total, with no condition on the labels of the table; and two tables with the same
  POSITIVE and NEGATIVE rows give a bucket they share the same total, rates and score.
\<close>

theorem rates_ignore_other_labels:
  "(0 < count_rows df b ''POSITIVE'' + count_rows df b ''NEGATIVE'' \<longrightarrow>
      (\<exists>s pr nr. sentiment_summary df = Inr s \<and> b \<in> set (index s) \<and>
         cell_at s b ''positive_rate'' = Some (FloatC pr) \<and>
         cell_at s b ''negative_rate'' = Some (FloatC nr) \<and>
         fadd pr nr = Fin 1))
   \<and>
   (filter (\<lambda>r. label r = ''POSITIVE'' \<or> label r = ''NEGATIVE'') df'
      = filter (\<lambda>r. label r = ''POSITIVE'' \<or> label r = ''NEGATIVE'') df \<and>
    b \<in> bucket ` set df \<and> b \<in> bucket ` set df' \<longrightarrow>
      (\<exists>s s'. sentiment_summary df = Inr s \<and> sentiment_summary df' = Inr s' \<and>
         cell_at s b ''total'' \<noteq> None \<and>
         cell_at s' b ''total'' = cell_at s b ''total'' \<and>
         cell_at s' b ''positive_rate'' = cell_at s b ''positive_rate'' \<and>
         cell_at s' b ''negative_rate'' = cell_at s b ''negative_rate'' \<and>
         cell_at s' b ''sentiment_score'' = cell_at s b ''sentiment_score''))"
proof (intro conjI impI)
  assume pos: "0 < count_rows df b ''POSITIVE'' + count_rows df b ''NEGATIVE''"
  from summary_cell_derived [OF bucket_of_total [OF pos]]
  obtain s where "sentiment_summary df = Inr s" "b \<in> set (index s)"
    "cell_at s b ''positive_rate'' = Some (positive_rate_of df b)"
    "cell_at s b ''negative_rate'' = Some (negative_rate_of df b)"
    by blast
  then show "\<exists>s pr nr. sentiment_summary df = Inr s \<and> b \<in> set (index s) \<and>
         cell_at s b ''positive_rate'' = Some (FloatC pr) \<and>
         cell_at s b ''negative_rate'' = Some (FloatC nr) \<and>
         fadd pr nr = Fin 1"
    unfolding positive_rate_of_eq negative_rate_of_eq
    using rates_add [OF pos] by blast
next
  assume h: "filter (\<lambda>r. label r = ''POSITIVE'' \<or> label r = ''NEGATIVE'') df'
      = filter (\<lambda>r. label r = ''POSITIVE'' \<or> label r = ''NEGATIVE'') df \<and>
    b \<in> bucket ` set df \<and> b \<in> bucket ` set df'"
  then have same: "filter (\<lambda>r. label r = ''POSITIVE'' \<or> label r = ''NEGATIVE'') df'
      = filter (\<lambda>r. label r = ''POSITIVE'' \<or> label r = ''NEGATIVE'') df"
    and b: "b \<in> bucket ` set df" and b': "b \<in> bucket ` set df'" by blast+
  from summary_cell_derived [OF b] obtain s where s: "sentiment_summary df = Inr s"
    "cell_at s b ''total'' = Some (total_of df b)"
    "cell_at s b ''positive_rate'' = Some (positive_rate_of df b)"
    "cell_at s b ''negative_rate'' = Some (negative_rate_of df b)"
    "cell_at s b ''sentiment_score'' = Some (score_of df b)"
    by blast
  from summary_cell_derived [OF b'] obtain s' where s': "sentiment_summary df' = Inr s'"
    "cell_at s' b ''total'' = Some (total_of df' b)"
    "cell_at s' b ''positive_rate'' = Some (positive_rate_of df' b)"
    "cell_at s' b ''negative_rate'' = Some (negative_rate_of df' b)"
    "cell_at s' b ''sentiment_score'' = Some (score_of df' b)"
    by blast
  from s s' show "\<exists>s s'. sentiment_summary df = Inr s \<and> sentiment_summary df' = Inr s' \<and>
         cell_at s b ''total'' \<noteq> None \<and>
         cell_at s' b ''total'' = cell_at s b ''total'' \<and>
         cell_at s' b ''positive_rate'' = cell_at s b ''positive_rate'' \<and>
         cell_at s' b ''negative_rate'' = cell_at s b ''negative_rate'' \<and>
         cell_at s' b ''sentiment_score'' = cell_at s b ''sentiment_score''"
    by (intro exI [of _ s] exI [of _ s']) (simp add: derived_same_polar_rows [OF same])
qed

theorem rates_ignore_other_labels_witness:
  "(\<exists>s pr nr.
      sentiment_summary
        [\<lparr>bucket = ''price'', label = ''POSITIVE'', confidence = Fin (4 / 5)\<rparr>,
         \<lparr>bucket = ''price'', label = ''NEUTRAL'', confidence = Fin (3 / 5)\<rparr>,
         \<lparr>bucket = ''price'', label = ''NEGATIVE'', confidence = Fin (1 / 2)\<rparr>] = Inr s \<and>
      ''price'' \<in> set (index s) \<and>
      cell_at s ''price'' ''positive_rate'' = Some (FloatC pr) \<and>
      cell_at s ''price'' ''negative_rate'' = Some (FloatC nr) \<and>
      fadd pr nr = Fin 1)
   \<and>
   (\<exists>s s'.
      sentiment_summary
        [\<lparr>bucket = ''price'', label = ''POSITIVE'', confidence = Fin (4 / 5)\<rparr>,
         \<lparr>bucket = ''price'', label = ''NEUTRAL'', confidence = Fin (3 / 5)\<rparr>,
         \<lparr>bucket = ''price'', label = ''NEGATIVE'', confidence = Fin (1 / 2)\<rparr>] = Inr s \<and>
      sentiment_summary
        [\<lparr>bucket = ''price'', label = ''POSITIVE'', confidence = Fin (4 / 5)\<rparr>,
         \<lparr>bucket = ''price'', label = ''NEGATIVE'', confidence = Fin (1 / 2)\<rparr>] = Inr s' \<and>
      cell_at s ''price'' ''total'' \<noteq> None \<and>
      cell_at s' ''price'' ''total'' = cell_at s ''price'' ''total'' \<and>
      cell_at s' ''price'' ''positive_rate'' = cell_at s ''price'' ''positive_rate'' \<and>
      cell_at s' ''price'' ''negative_rate'' = cell_at s ''price'' ''negative_rate'' \<and>
      cell_at s' ''price'' ''sentiment_score'' = cell_at s ''price'' ''sentiment_score'')"
proof -
  let ?df = "[\<lparr>bucket = ''price'', label = ''POSITIVE'', confidence = Fin (4 / 5)\<rparr>,
         \<lparr>bucket = ''price'', label = ''NEUTRAL'', confidence = Fin (3 / 5)\<rparr>,
         \<lparr>bucket = ''price'', label = ''NEGATIVE'', confidence = Fin (1 / 2)\<rparr>]"
  let ?df' = "[\<lparr>bucket = ''price'', label = ''POSITIVE'', confidence = Fin (4 / 5)\<rparr>,
         \<lparr>bucket = ''price'', label = ''NEGATIVE'', confidence = Fin (1 / 2)\<rparr>]"
  have pos: "0 < count_rows ?df ''price'' ''POSITIVE'' + count_rows ?df ''price'' ''NEGATIVE''"
    by (simp add: count_rows_def)
  have same: "filter (\<lambda>r. label r = ''POSITIVE'' \<or> label r = ''NEGATIVE'') ?df'
      = filter (\<lambda>r. label r = ''POSITIVE'' \<or> label r = ''NEGATIVE'') ?df \<and>
    ''price'' \<in> bucket ` set ?df \<and> ''price'' \<in> bucket ` set ?df'"
    by simp
  note inst = rates_ignore_other_labels [where df = ?df and df' = ?df' and b = "''price''"]
  from inst pos have a: "\<exists>s pr nr. sentiment_summary ?df = Inr s \<and>
      ''price'' \<in> set (index s) \<and>
      cell_at s ''price'' ''positive_rate'' = Some (FloatC pr) \<and>
      cell_at s ''price'' ''negative_rate'' = Some (FloatC nr) \<and>
      fadd pr nr = Fin 1" by blast
  from inst same have b: "\<exists>s s'. sentiment_summary ?df = Inr s \<and> sentiment_summary ?df' = Inr s' \<and>
      cell_at s ''price'' ''total'' \<noteq> None \<and>
      cell_at s' ''price'' ''total'' = cell_at s ''price'' ''total'' \<and>
      cell_at s' ''price'' ''positive_rate'' = cell_at s ''price'' ''positive_rate'' \<and>
      cell_at s' ''price'' ''negative_rate'' = cell_at s ''price'' ''negative_rate'' \<and>
      cell_at s' ''price'' ''sentiment_score'' = cell_at s ''price'' ''sentiment_score''" by blast
  from a b show ?thesis by blast
qed

text \<open>
  Claim C10. \<open>plot_confidence_histogram\<close> has a branch that warns and returns when its
  argument is None or empty, but no run of the script takes it: the only call is made with a
  result that is not None and not empty, where the function emits the histogram. So the
  warning of that branch never appears on the page, whatever the upload, the buttons, the
  file system and the analyser do.
\<close>

theorem histogram_warning_unreachable:
  "plot_confidence_histogram None
     = [StWarning ''No sentiment data available to plot confidence histogram.''] \<and>
   plot_confidence_histogram (Some [])
     = [StWarning ''No sentiment data available to plot confidence histogram.''] \<and>
   StWarning ''No sentiment data available to plot confidence histogram.''
     \<notin> set (fst (show_results result_df)) \<and>
   StWarning ''No sentiment data available to plot confidence histogram.''
     \<notin> set (fst (app e)) \<and>
   (StSubheader ''Model Confidence Distribution'' \<in> set (fst (show_results result_df)) \<longrightarrow>
      (\<exists>rows. result_df = Some rows \<and> rows \<noteq> [] \<and>
         plot_confidence_histogram result_df = [StPyplot (Hist (map confidence rows) 20)] \<and>
         StPyplot (Hist (map confidence rows) 20) \<in> set (fst (show_results result_df))))"
proof (intro conjI impI)
  show "plot_confidence_histogram None
     = [StWarning ''No sentiment data available to plot confidence histogram.'']"
    by (simp add: plot_confidence_histogram_def)
  show "plot_confidence_histogram (Some [])
     = [StWarning ''No sentiment data available to plot confidence histogram.'']"
    by (simp add: plot_confidence_histogram_def)
  show "StWarning ''No sentiment data available to plot confidence histogram.''
     \<notin> set (fst (show_results result_df))"
    by (rule show_results_no_histogram_warning)
  show "StWarning ''No sentiment data available to plot confidence histogram.''
     \<notin> set (fst (app e))"
  proof (cases "load_csv e")
    case (Pair loaded r)
    have l: "StWarning ''No sentiment data available to plot confidence histogram.'' \<notin> set loaded"
      using load_csv_widgets [OF Pair] by auto
    have p: "StWarning ''No sentiment data available to plot confidence histogram.'' \<notin> set page_head"
      using page_head_widgets by auto
    show ?thesis
    proof (cases r)
      case (Inl x)
      with Pair l p show ?thesis by (simp add: app_def)
    next
      case (Inr df)
      with Pair l p run_analysis_no_histogram_warning [of e df] show ?thesis
        by (simp add: app_def case_prod_beta)
    qed
  qed
next
  assume sub: "StSubheader ''Model Confidence Distribution'' \<in> set (fst (show_results result_df))"
  have "\<not> (result_df = None \<or> result_df = Some [])"
  proof
    assume "result_df = None \<or> result_df = Some []"
    from show_results_empty [OF this] sub show False by simp
  qed
  then obtain rows where r: "result_df = Some rows" "rows \<noteq> []" by auto
  from show_results_nonempty [OF r(2)] have
    "StPyplot (Hist (map confidence rows) 20) \<in> set (fst (show_results (Some rows)))"
    by auto
  with r plot_confidence_histogram_nonempty [OF r(2)]
  show "\<exists>rows. result_df = Some rows \<and> rows \<noteq> [] \<and>
         plot_confidence_histogram result_df = [StPyplot (Hist (map confidence rows) 20)] \<and>
         StPyplot (Hist (map confidence rows) 20) \<in> set (fst (show_results result_df))"
    by blast
qed

theorem histogram_warning_unreachable_witness:
  "plot_confidence_histogram
     (Some [\<lparr>bucket = ''price'', label = ''POSITIVE'', confidence = Fin (4 / 5)\<rparr>])
     = [StPyplot (Hist [Fin (4 / 5)] 20)] \<and>
   StPyplot (Hist [Fin (4 / 5)] 20)
     \<in> set (fst (show_results
          (Some [\<lparr>bucket = ''price'', label = ''POSITIVE'', confidence = Fin (4 / 5)\<rparr>])))"
proof -
  let ?rows = "[\<lparr>bucket = ''price'', label = ''POSITIVE'', confidence = Fin (4 / 5)\<rparr>]"
  have ne: "?rows \<noteq> []" by simp
  from show_results_nonempty [OF ne]
  have sub: "StSubheader ''Model Confidence Distribution'' \<in> set (fst (show_results (Some ?rows)))"
    by auto
  from histogram_warning_unreachable [where result_df = "Some ?rows"] sub
  obtain rows where eq: "Some ?rows = Some rows"
    and h: "plot_confidence_histogram (Some ?rows) = [StPyplot (Hist (map confidence rows) 20)]"
      "StPyplot (Hist (map confidence rows) 20) \<in> set (fst (show_results (Some ?rows)))"
    by blast
  from eq have "rows = ?rows" by simp
  then have "map confidence rows = [Fin (4 / 5)]" by simp
  with h show ?thesis by simp
qed

end
